theory Spec2Isabelle
  imports Complex_Main "HOL-Library.Char_ord" "HOL-Library.List_Lexorder"
    "HOL-Library.Product_Lexorder" "HOL-Library.Multiset"
begin

section \<open>Header text\<close>

text \<open>
  The dashboard script \<^verbatim>\<open>uploadfile.py\<close> cleans the header of the uploaded table with
  \<^verbatim>\<open>df.columns.str.strip().str.lower().str.replace(' ', '_')\<close> (line 26) and renders the
  required names with \<^verbatim>\<open>col.capitalize()\<close> (line 31). Headers are modelled as ASCII
  text: \<open>isspace\<close> is Python's \<^verbatim>\<open>str.isspace\<close> on the code points below 128, and the case
  conversions act on the letters A to Z and a to z and leave every other character as it is.
\<close>

definition isspace :: "char \<Rightarrow> bool" where
  "isspace c = (of_char c \<in> {9, 10, 11, 12, 13, 28, 29, 30, 31, 32 :: nat})"

definition lower_char :: "char \<Rightarrow> char" where
  "lower_char c =
     (let n = of_char c :: nat in if 65 \<le> n \<and> n \<le> 90 then char_of (n + 32) else c)"

definition upper_char :: "char \<Rightarrow> char" where
  "upper_char c =
     (let n = of_char c :: nat in if 97 \<le> n \<and> n \<le> 122 then char_of (n - 32) else c)"

definition strip :: "string \<Rightarrow> string" where
  "strip s = rev (dropWhile isspace (rev (dropWhile isspace s)))"

definition lower :: "string \<Rightarrow> string" where
  "lower s = map lower_char s"

definition replace_char :: "char \<Rightarrow> char \<Rightarrow> string \<Rightarrow> string" where
  "replace_char old new s = map (\<lambda>c. if c = old then new else c) s"

definition normalize_name :: "string \<Rightarrow> string" where
  "normalize_name s = replace_char (CHR '' '') (CHR ''_'') (lower (strip s))"

definition capitalize :: "string \<Rightarrow> string" where
  "capitalize s = (case s of [] \<Rightarrow> [] | c # cs \<Rightarrow> upper_char c # lower cs)"

fun join :: "string \<Rightarrow> string list \<Rightarrow> string" where
  "join sep [] = []"
| "join sep [x] = x"
| "join sep (x # y # ys) = x @ sep @ join sep (y # ys)"

section \<open>Data frames\<close>

text \<open>
  A frame is the list of its columns in file order, each a name with its cells; the
  names need not be distinct. A cell is missing (\<open>NaN\<close>), text, a number, or a time stamp
  (\<open>NaT\<close> is the missing stamp). \<open>getitem\<close> is \<^verbatim>\<open>df[name]\<close>: a key error when no column
  has the name, the series when exactly one has it, and the sub-frame of all of them
  otherwise. \<open>setitem\<close> is \<^verbatim>\<open>df[name] = values\<close>. \<open>nrows\<close> is \<^verbatim>\<open>len(df)\<close>. Numbers are
  real numbers: the rounding of the library's 64-bit floats is outside the model.
\<close>

datatype stamp = NaT | At int

datatype cell = NaN | Txt string | Num real | Date stamp

type_synonym series = "cell list"

type_synonym frame = "(string \<times> series) list"

datatype selection = KeyError | Series series | SubFrame frame

definition columns :: "frame \<Rightarrow> string list" where
  "columns df = map fst df"

definition nrows :: "frame \<Rightarrow> nat" where
  "nrows df = (case df of [] \<Rightarrow> 0 | (_, col) # _ \<Rightarrow> length col)"

definition getitem :: "frame \<Rightarrow> string \<Rightarrow> selection" where
  "getitem df name =
     (case filter (\<lambda>(n, _). n = name) df of
        [] \<Rightarrow> KeyError
      | [(_, col)] \<Rightarrow> Series col
      | sub \<Rightarrow> SubFrame sub)"

definition setitem :: "frame \<Rightarrow> string \<Rightarrow> series \<Rightarrow> frame" where
  "setitem df name vals =
     (if name \<in> set (columns df)
      then map (\<lambda>(n, col). if n = name then (n, vals) else (n, col)) df
      else df @ [(name, vals)])"

section \<open>The cleaning steps\<close>

datatype error =
    EmptyDataError
  | ParserError
  | UnexpectedError string
  | SchemaError "string list"
  | DateCoercionError

definition normalize_columns :: "frame \<Rightarrow> frame" where
  "normalize_columns df = map (\<lambda>(n, col). (normalize_name n, col)) df"

definition required_columns :: "string list" where
  "required_columns =
     [''date'', ''platform'', ''sentiment'', ''location'', ''engagements'', ''media_type'']"

text \<open>
  Lines 29 to 32. The error carries the names that the message prints, which are the
  capitalised required names, all six of them.
\<close>

definition validateSchema :: "frame \<Rightarrow> error + frame" where
  "validateSchema df =
     (if list_all (\<lambda>col. col \<in> set (columns df)) required_columns
      then Inr df
      else Inl (SchemaError (map capitalize required_columns)))"

text \<open>The required names that a frame lacks, in the order of \<open>required_columns\<close>.\<close>

definition missing_columns :: "frame \<Rightarrow> string list" where
  "missing_columns df = filter (\<lambda>col. col \<notin> set (columns df)) required_columns"

text \<open>
  A header spelled after a required name: \<open>respell bs r\<close> changes the characters of \<open>r\<close>
  that \<open>bs\<close> marks, a letter to its capital and an underscore to a space, and
  \<open>variant\<close> puts white space around the result.
\<close>

fun respell :: "bool list \<Rightarrow> string \<Rightarrow> string" where
  "respell (b # bs) (c # cs) =
     (if b then (if c = CHR ''_'' then CHR '' '' else upper_char c) else c) # respell bs cs"
| "respell [] cs = cs"
| "respell bs [] = []"

definition variant :: "string \<Rightarrow> bool list \<Rightarrow> string \<Rightarrow> string \<Rightarrow> string" where
  "variant pre bs post r = pre @ respell bs r @ post"

section \<open>Coercions\<close>

text \<open>
  \<^verbatim>\<open>pd.to_datetime\<close> and \<^verbatim>\<open>pd.to_numeric\<close> belong to the pandas library. What they do
  with one cell is a parameter here. \<open>parse col c = None\<close> says that the date parser
  rejects the cell \<open>c\<close> of the column \<open>col\<close> (the library may settle the format of a
  column from its first cells, so the column is an argument), and \<open>num c = None\<close> that
  \<open>c\<close> holds no number. \<open>to_datetime\<close> runs with the default \<^verbatim>\<open>errors='raise'\<close>, so one
  rejected cell fails the whole call; \<open>to_numeric\<close> runs with \<^verbatim>\<open>errors='coerce'\<close>, so a
  cell without a number becomes missing, and \<open>fillna\<close> then replaces what is missing.
\<close>

type_synonym date_parser = "series \<Rightarrow> cell \<Rightarrow> stamp option"

type_synonym number_reader = "cell \<Rightarrow> real option"

definition to_datetime :: "date_parser \<Rightarrow> series \<Rightarrow> stamp list option" where
  "to_datetime parse col = those (map (parse col) col)"

definition to_numeric :: "number_reader \<Rightarrow> series \<Rightarrow> real option list" where
  "to_numeric num col = map num col"

definition fillna :: "real \<Rightarrow> real option list \<Rightarrow> real list" where
  "fillna v xs = map (\<lambda>x. case x of None \<Rightarrow> v | Some y \<Rightarrow> y) xs"

text \<open>
  Lines 35 to 39. \<^verbatim>\<open>df['date']\<close> is evaluated inside the inner \<^verbatim>\<open>try\<close>, and the parser
  raises on a sub-frame of several columns named \<^verbatim>\<open>date\<close>, so each of these ends in the
  same handler.
\<close>

definition coerceDate :: "date_parser \<Rightarrow> frame \<Rightarrow> error + frame" where
  "coerceDate parse df =
     (case getitem df ''date'' of
        Series col \<Rightarrow>
          (case to_datetime parse col of
             Some ds \<Rightarrow> Inr (setitem df ''date'' (map Date ds))
           | None \<Rightarrow> Inl DateCoercionError)
      | _ \<Rightarrow> Inl DateCoercionError)"

text \<open>
  Line 43. It has no handler of its own: an exception here (a key error, or the type
  error that \<^verbatim>\<open>pd.to_numeric\<close> raises on a sub-frame) reaches the last handler of the
  outer \<^verbatim>\<open>try\<close> with its text.
\<close>

definition repairEngagements :: "number_reader \<Rightarrow> frame \<Rightarrow> error + frame" where
  "repairEngagements num df =
     (case getitem df ''engagements'' of
        Series col \<Rightarrow>
          Inr (setitem df ''engagements'' (map Num (fillna 0 (to_numeric num col))))
      | KeyError \<Rightarrow> Inl (UnexpectedError (CHR 0x27 # ''engagements'' @ [CHR 0x27]))
      | SubFrame _ \<Rightarrow>
          Inl (UnexpectedError ''arg must be a list, tuple, 1-d array, or Series''))"

text \<open>
  Two sample conversions for the examples. \<open>plain_number\<close> takes a number cell for its
  number and finds no number elsewhere; \<open>iso_day\<close>, in any column, reads a text of the form
  \<^verbatim>\<open>yyyy-mm-dd\<close> as the day with the stamp \<open>yyyymmdd\<close>, takes a missing cell to the
  missing stamp, and rejects the rest. The examples apply them to number cells, missing
  cells, ISO days and texts that are neither a numeral nor a date.
\<close>

fun plain_number :: number_reader where
  "plain_number (Num x) = Some x"
| "plain_number _ = None"

definition digit :: "char \<Rightarrow> nat option" where
  "digit c =
     (let n = of_char c :: nat in if 48 \<le> n \<and> n \<le> 57 then Some (n - 48) else None)"

fun number_of_digits :: "nat \<Rightarrow> string \<Rightarrow> nat option" where
  "number_of_digits acc [] = Some acc"
| "number_of_digits acc (c # cs) =
     (case digit c of None \<Rightarrow> None | Some d \<Rightarrow> number_of_digits (10 * acc + d) cs)"

fun iso_day :: date_parser where
  "iso_day col NaN = Some NaT"
| "iso_day col (Txt [y1, y2, y3, y4, a, m1, m2, b, d1, d2]) =
     (if a = CHR ''-'' \<and> b = CHR ''-'' then
        (case (number_of_digits 0 [y1, y2, y3, y4], number_of_digits 0 [m1, m2],
               number_of_digits 0 [d1, d2]) of
           (Some y, Some m, Some d) \<Rightarrow>
             (if 1 \<le> m \<and> m \<le> 12 \<and> 1 \<le> d \<and> d \<le> 31
              then Some (At (int (10000 * y + 100 * m + d))) else None)
         | _ \<Rightarrow> None)
      else None)"
| "iso_day col _ = None"

section \<open>The upload\<close>

text \<open>
  \<^verbatim>\<open>pd.read_csv\<close> is the library's reader. The uploaded file is modelled by what the reader
  finds in it: bytes that it cannot tokenize, bytes on which it fails in another way
  (with the text of the exception), or a table, that is a header with the cells under
  each name. A file of zero bytes is the table without columns, for which the reader
  raises \<^verbatim>\<open>EmptyDataError\<close> ("No columns to parse from file"); a file that ends after
  its header line is a table whose columns are all empty.
\<close>

datatype upload = Untokenizable | Unreadable string | Table frame

fun read_csv :: "upload \<Rightarrow> error + frame" where
  "read_csv Untokenizable = Inl ParserError"
| "read_csv (Unreadable msg) = Inl (UnexpectedError msg)"
| "read_csv (Table df) = (if df = [] then Inl EmptyDataError else Inr df)"

text \<open>Lines 26 to 43: the steps that follow the reader.\<close>

definition clean ::
  "date_parser \<Rightarrow> number_reader \<Rightarrow> frame \<Rightarrow> error + frame" where
  "clean parse num df0 =
     (case validateSchema (normalize_columns df0) of
        Inl e \<Rightarrow> Inl e
      | Inr df \<Rightarrow>
          (case coerceDate parse df of
             Inl e \<Rightarrow> Inl e
           | Inr df' \<Rightarrow> repairEngagements num df'))"

definition load ::
  "date_parser \<Rightarrow> number_reader \<Rightarrow> upload \<Rightarrow> error + frame" where
  "load parse num up =
     (case read_csv up of Inl e \<Rightarrow> Inl e | Inr df0 \<Rightarrow> clean parse num df0)"

text \<open>
  What the page shows: \<open>Success\<close> is \<^verbatim>\<open>st.success\<close>, \<open>Failure\<close> is \<^verbatim>\<open>st.error\<close>, and the
  view is either the five charts drawn from the cleaned frame or the prompt of line 174.
\<close>

datatype message = Success string | Failure string

datatype view = Charts frame | Prompt

definition error_message :: "error \<Rightarrow> string" where
  "error_message e =
     (case e of
        EmptyDataError \<Rightarrow> ''The uploaded CSV file is empty. Please upload a file with data.''
      | ParserError \<Rightarrow>
          ''Could not parse the CSV file. Please ensure it's a valid CSV format.''
      | UnexpectedError msg \<Rightarrow>
          ''An unexpected error occurred during file processing: '' @ msg
            @ ''. Please check your CSV file and try again.''
      | SchemaError names \<Rightarrow>
          ''Error: Missing one or more required columns after cleaning. ''
            @ ''Please ensure your CSV has these columns: **'' @ join '', '' names @ ''**.''
      | DateCoercionError \<Rightarrow>
          ''Error: 'Date' column could not be converted to a datetime format. ''
            @ ''Please check your data.'')"

definition uploaded_message :: message where
  "uploaded_message = Success ''CSV file uploaded successfully! Processing data...''"

definition cleaned_message :: message where
  "cleaned_message = Success ''Data successfully cleaned and prepared for analysis!''"

text \<open>
  Line 51: the preview \<^verbatim>\<open>st.dataframe(df.head())\<close> stands inside the outer \<^verbatim>\<open>try\<close>, after
  the second success message. \<open>df_head\<close> is \<^verbatim>\<open>df.head(n)\<close>. The display library does not
  show a table in which two columns bear the same name: it raises, and the exception
  reaches the last handler of the \<^verbatim>\<open>try\<close>, which shows it and sets \<^verbatim>\<open>df = None\<close>. The model
  keeps the first words of the exception's text.
\<close>

definition df_head :: "nat \<Rightarrow> frame \<Rightarrow> frame" where
  "df_head n df = map (\<lambda>(name, col). (name, take n col)) df"

definition st_dataframe :: "frame \<Rightarrow> error + unit" where
  "st_dataframe df =
     (if distinct (columns df) then Inr ()
      else Inl (UnexpectedError ''Duplicate column names found''))"

text \<open>Lines 17 to 61: the messages in the order they are shown, and the final \<^verbatim>\<open>df\<close>.\<close>

definition process ::
  "date_parser \<Rightarrow> number_reader \<Rightarrow> upload option
     \<Rightarrow> message list \<times> frame option" where
  "process parse num uploaded_file =
     (case uploaded_file of
        None \<Rightarrow> ([], None)
      | Some up \<Rightarrow>
          (case read_csv up of
             Inl e \<Rightarrow> ([Failure (error_message e)], None)
           | Inr df0 \<Rightarrow>
               (case clean parse num df0 of
                  Inl e \<Rightarrow> ([uploaded_message, Failure (error_message e)], None)
                | Inr df \<Rightarrow>
                    (case st_dataframe (df_head 5 df) of
                       Inl e \<Rightarrow>
                         ([uploaded_message, cleaned_message, Failure (error_message e)],
                          None)
                     | Inr _ \<Rightarrow> ([uploaded_message, cleaned_message], Some df)))))"

text \<open>Line 64 and line 173: the gate before the charts.\<close>

definition render :: "frame option \<Rightarrow> view" where
  "render df = (case df of Some d \<Rightarrow> Charts d | None \<Rightarrow> Prompt)"

definition dashboard ::
  "date_parser \<Rightarrow> number_reader \<Rightarrow> upload option
     \<Rightarrow> message list \<times> view" where
  "dashboard parse num uploaded_file =
     (case process parse num uploaded_file of (msgs, df) \<Rightarrow> (msgs, render df))"

section \<open>Aggregation\<close>

text \<open>
  \<^verbatim>\<open>df.groupby(key)['engagements'].sum().reset_index()\<close>: one entry for each key that
  occurs, with the sum of the values of its rows. The library drops the rows whose key is
  missing (\<^verbatim>\<open>dropna=True\<close> is the default) and puts the keys in ascending order
  (\<^verbatim>\<open>sort=True\<close>); \<open>sort_rank\<close> orders numbers by value and texts by code point. A
  column that comes from the reader holds numbers or texts, not both; between the kinds
  the order of \<open>sort_rank\<close> is a choice, and no property below depends on the order of
  the groups. The values are those of a numeric column, as the repaired column is.

  \<^verbatim>\<open>.sum()\<close> is the library's too. It adds a column of 64-bit integers with wrap-around
  and a column of 64-bit floats with rounding, so what it returns for a group is not in
  general the exact sum of the group's values. The parameter \<open>agg\<close> stands for it: the
  model takes from it only that the sum of a group is a function of the values of the
  group's rows, in row order. On small whole numbers, as in the examples below, every
  such sum is exact, and the examples take \<open>sum_list\<close> for \<open>agg\<close>.
\<close>

type_synonym column_sum = "real list \<Rightarrow> real"

fun isna :: "cell \<Rightarrow> bool" where
  "isna NaN = True"
| "isna (Date NaT) = True"
| "isna _ = False"

fun sort_rank :: "cell \<Rightarrow> nat \<times> real \<times> string" where
  "sort_rank (Num x) = (0, x, [])"
| "sort_rank (Txt s) = (1, 0, s)"
| "sort_rank (Date (At n)) = (2, real_of_int n, [])"
| "sort_rank _ = (3, 0, [])"

definition group_keys :: "series \<Rightarrow> cell list" where
  "group_keys keys = sort_key sort_rank (remdups (filter (\<lambda>k. \<not> isna k) keys))"

definition group_values :: "cell \<Rightarrow> series \<Rightarrow> real list \<Rightarrow> real list" where
  "group_values k keys vals = map snd (filter (\<lambda>(k', v). k' = k) (zip keys vals))"

definition groupby_sum :: "column_sum \<Rightarrow> series \<Rightarrow> real list \<Rightarrow> (cell \<times> real) list" where
  "groupby_sum agg keys vals =
     map (\<lambda>k. (k, agg (group_values k keys vals))) (group_keys keys)"

text \<open>
  One such sum, for a column of 64-bit integers: the exact sum of the whole numbers,
  taken into the range from \<open>- 2 ^ 63\<close> to \<open>2 ^ 63 - 1\<close> by wrap-around.
\<close>

definition wrap_sum :: column_sum where
  "wrap_sum xs =
     real_of_int ((\<lfloor>sum_list xs\<rfloor> + 2 ^ 63) mod 2 ^ 64 - 2 ^ 63)"

fun number :: "cell \<Rightarrow> real option" where
  "number (Num x) = Some x"
| "number _ = None"

definition numbers :: "series \<Rightarrow> real list option" where
  "numbers col = those (map number col)"

definition engagements_by ::
  "column_sum \<Rightarrow> string \<Rightarrow> frame \<Rightarrow> (cell \<times> real) list option" where
  "engagements_by agg key df =
     (case (getitem df key, getitem df ''engagements'') of
        (Series keys, Series col) \<Rightarrow>
          (case numbers col of
             Some vals \<Rightarrow> Some (groupby_sum agg keys vals)
           | None \<Rightarrow> None)
      | _ \<Rightarrow> None)"

text \<open>Line 93 and line 157.\<close>

definition platform_engagements :: "column_sum \<Rightarrow> frame \<Rightarrow> (cell \<times> real) list option" where
  "platform_engagements agg df = engagements_by agg ''platform'' df"





text \<open>
  The labels that occur in a column, and the exact sum of the values of the rows whose
  key satisfies a condition.
\<close>

definition labels :: "series \<Rightarrow> cell set" where
  "labels keys = {k \<in> set keys. \<not> isna k}"

definition sum_where :: "(cell \<Rightarrow> bool) \<Rightarrow> series \<Rightarrow> real list \<Rightarrow> real" where
  "sum_where P keys vals = sum_list (map snd (filter (\<lambda>(k, v). P k) (zip keys vals)))"

section \<open>Sample tables\<close>

text \<open>
  Tables for the examples: a campaign of three rows with one missing count; the same
  header with no row under it; a campaign with a text that is no date in its date
  column; one without the location column; one with two columns that the normalisation
  gives the same name; and one with a row whose platform is missing.
\<close>

definition sample_table :: frame where
  "sample_table =
     [(''Date'', [Txt ''2024-03-11'', Txt ''2024-03-12'', Txt ''2024-03-12'']),
      (''Platform'', [Txt ''X'', Txt ''TikTok'', Txt ''X'']),
      (''Sentiment'', [Txt ''positive'', Txt ''neutral'', Txt ''negative'']),
      (''Location'', [Txt ''Jakarta'', Txt ''Bandung'', Txt ''Jakarta'']),
      (''Engagements'', [Num 120, NaN, Num 30]),
      (''Media Type'', [Txt ''video'', Txt ''image'', Txt ''text''])]"

definition header_only_table :: frame where
  "header_only_table =
     [(''Date'', []), (''Platform'', []), (''Sentiment'', []), (''Location'', []),
      (''Engagements'', []), (''Media Type'', [])]"

definition undated_table :: frame where
  "undated_table =
     [(''Date'', [Txt ''2024-03-11'', Txt ''not-a-date'']),
      (''Platform'', [Txt ''X'', Txt ''TikTok'']),
      (''Sentiment'', [Txt ''positive'', Txt ''neutral'']),
      (''Location'', [Txt ''Jakarta'', Txt ''Bandung'']),
      (''Engagements'', [Num 120, Num 30]),
      (''Media Type'', [Txt ''video'', Txt ''image''])]"

definition unlocated_table :: frame where
  "unlocated_table =
     [(''Date'', [Txt ''2024-03-11'', Txt ''2024-03-12'']),
      (''Platform'', [Txt ''X'', Txt ''TikTok'']),
      (''Sentiment'', [Txt ''positive'', Txt ''neutral'']),
      (''Engagements'', [Num 120, Num 30]),
      (''Media Type'', [Txt ''video'', Txt ''image''])]"

definition renoted_table :: frame where
  "renoted_table =
     [(''Date'', [Txt ''2024-03-11'']),
      (''Platform'', [Txt ''X'']),
      (''Sentiment'', [Txt ''positive'']),
      (''Location'', [Txt ''Jakarta'']),
      (''Engagements'', [Num 120]),
      (''Media Type'', [Txt ''video'']),
      (''Notes'', [Txt ''first'']),
      (''notes'', [Txt ''second''])]"

definition unlabelled_table :: frame where
  "unlabelled_table =
     [(''Date'', [Txt ''2024-03-11'', Txt ''2024-03-12'']),
      (''Platform'', [Txt ''X'', NaN]),
      (''Sentiment'', [Txt ''positive'', Txt ''neutral'']),
      (''Location'', [Txt ''Jakarta'', Txt ''Bandung'']),
      (''Engagements'', [Num 120, Num 30]),
      (''Media Type'', [Txt ''video'', Txt ''image''])]"

section \<open>Header normalisation: properties\<close>

lemma lower_char_idem: "lower_char (lower_char c) = lower_char c"
  by (auto simp add: lower_char_def Let_def)

lemma lower_char_not_space: "\<not> isspace c \<Longrightarrow> \<not> isspace (lower_char c)"
  by (auto simp add: lower_char_def isspace_def Let_def)

lemma of_char_lower_char:
  "(of_char (lower_char c) :: nat) =
     (if 65 \<le> (of_char c :: nat) \<and> (of_char c :: nat) \<le> 90 then of_char c + 32 else of_char c)"
  by (simp add: lower_char_def Let_def)

lemma of_char_upper_char:
  "(of_char (upper_char c) :: nat) =
     (if 97 \<le> (of_char c :: nat) \<and> (of_char c :: nat) \<le> 122 then of_char c - 32 else of_char c)"
  by (auto simp add: upper_char_def Let_def)

lemma char_eq_iff_code: "c = d \<longleftrightarrow> (of_char c :: nat) = of_char d"
  by auto

lemma lower_char_eq_space: "lower_char c = CHR '' '' \<longleftrightarrow> c = CHR '' ''"
  by (simp add: char_eq_iff_code [of _ "CHR '' ''"] of_char_lower_char)

lemma lower_char_underscore: "lower_char (CHR ''_'') = CHR ''_''"
  by (simp add: lower_char_def)

lemma last_dropWhile: "dropWhile P xs \<noteq> [] \<Longrightarrow> last (dropWhile P xs) = last xs"
  by (induction xs) (auto split: if_splits)

lemma strip_ends:
  "strip s = [] \<or> (\<not> isspace (hd (strip s)) \<and> \<not> isspace (last (strip s)))"
proof (cases "strip s = []")
  case True
  then show ?thesis by simp
next
  case False
  define d where "d = dropWhile isspace s"
  define e where "e = dropWhile isspace (rev d)"
  have s: "strip s = rev e" by (simp add: strip_def d_def e_def)
  with False have e: "e \<noteq> []" by simp
  then have d: "d \<noteq> []" by (auto simp add: e_def)
  have "\<not> isspace (hd e)" using e unfolding e_def by (rule hd_dropWhile)
  then have l: "\<not> isspace (last (strip s))" using e by (simp add: s last_rev)
  have "last e = last (rev d)" using e unfolding e_def by (rule last_dropWhile)
  then have "hd (strip s) = hd d" using e d by (simp add: s hd_rev last_rev)
  moreover have "\<not> isspace (hd d)" using d unfolding d_def by (rule hd_dropWhile)
  ultimately show ?thesis using l by simp
qed

lemma strip_padded:
  assumes "list_all isspace pre" "list_all isspace post"
    and "core \<noteq> []" "\<not> isspace (hd core)" "\<not> isspace (last core)"
  shows "strip (pre @ core @ post) = core"
proof -
  have 1: "dropWhile isspace (pre @ core @ post) = core @ post"
    using assms(1,3,4) by (cases core) (simp_all add: dropWhile_append3 list_all_iff)
  have 2: "dropWhile isspace (rev post @ rev core) = rev core"
    using assms(2,3,5) by (cases core rule: rev_cases) (simp_all add: list_all_iff dropWhile_append3)
  show ?thesis by (simp add: strip_def 1 2)
qed

lemma strip_id:
  assumes "s = [] \<or> (\<not> isspace (hd s) \<and> \<not> isspace (last s))"
  shows "strip s = s"
proof (cases "s = []")
  case True then show ?thesis by (simp add: strip_def)
next
  case False
  with assms strip_padded [of "[]" "[]" s] show ?thesis by simp
qed


lemma normalize_name_clean:
  "normalize_name s = [] \<or>
     (\<not> isspace (hd (normalize_name s)) \<and> \<not> isspace (last (normalize_name s)))"
proof -
  define f where "f = (\<lambda>c. if lower_char c = CHR '' '' then CHR ''_'' else lower_char c)"
  have n: "normalize_name s = map f (strip s)"
    by (simp add: normalize_name_def replace_char_def lower_def f_def)
  have f: "\<not> isspace (f c)" if "\<not> isspace c" for c
    using that lower_char_not_space [of c] by (simp add: f_def isspace_def)
  show ?thesis
    using strip_ends [of s] by (auto simp add: n hd_map last_map f)
qed

lemma normalize_name_fixed:
  "lower (normalize_name s) = normalize_name s"
  "replace_char (CHR '' '') (CHR ''_'') (normalize_name s) = normalize_name s"
  by (simp_all add: normalize_name_def replace_char_def lower_def lower_char_idem
      lower_char_underscore)

lemma respell_Nil: "respell bs r = [] \<longleftrightarrow> r = []"
  by (induction bs r rule: respell.induct) auto

lemma letter_not_space:
  "97 \<le> (of_char c :: nat) \<Longrightarrow> \<not> isspace c" "97 \<le> (of_char c :: nat) \<Longrightarrow> \<not> isspace (upper_char c)"
  by (auto simp add: isspace_def of_char_upper_char)

lemma respell_hd:
  "r \<noteq> [] \<Longrightarrow> 97 \<le> (of_char (hd r) :: nat) \<Longrightarrow> hd r \<noteq> CHR ''_'' \<Longrightarrow> \<not> isspace (hd (respell bs r))"
  by (cases bs; cases r) (auto simp add: letter_not_space)

lemma respell_last:
  "r \<noteq> [] \<Longrightarrow> 97 \<le> (of_char (last r) :: nat) \<Longrightarrow> last r \<noteq> CHR ''_'' \<Longrightarrow> \<not> isspace (last (respell bs r))"
  by (induction bs r rule: respell.induct) (auto simp add: letter_not_space respell_Nil)

lemma lower_upper_letter:
  "97 \<le> (of_char c :: nat) \<Longrightarrow> of_char c \<le> (122 :: nat) \<Longrightarrow> lower_char (upper_char c) = c"
  by (auto simp add: char_eq_iff_code [of _ c] of_char_lower_char of_char_upper_char)

lemma upper_letter_not_blank: "97 \<le> (of_char c :: nat) \<Longrightarrow> upper_char c \<noteq> CHR '' ''"
  using letter_not_space(2) [of c] by (auto simp add: isspace_def)

lemma lower_letter:
  "97 \<le> (of_char c :: nat) \<Longrightarrow> lower_char c = c"
  by (simp add: char_eq_iff_code [of _ c] of_char_lower_char)

lemma respell_back:
  "\<forall>c\<in>set r. 97 \<le> (of_char c :: nat) \<and> of_char c \<le> (122 :: nat) \<or> c = CHR ''_'' \<Longrightarrow>
     replace_char (CHR '' '') (CHR ''_'') (lower (respell bs r)) = r"
proof (induction bs r rule: respell.induct)
  case (1 b bs c cs)
  then have IH: "replace_char (CHR '' '') (CHR ''_'') (lower (respell bs cs)) = cs"
    by simp
  have c: "97 \<le> (of_char c :: nat) \<and> of_char c \<le> (122 :: nat) \<or> c = CHR ''_''"
    using 1 by simp
  have "(let d = lower_char (if b then (if c = CHR ''_'' then CHR '' '' else upper_char c) else c)
         in if d = CHR '' '' then CHR ''_'' else d) = c"
    using c by (auto simp add: lower_upper_letter lower_letter lower_char_eq_space
        lower_char_underscore upper_letter_not_blank Let_def)
  then show ?case using IH by (simp add: replace_char_def lower_def Let_def)
next
  case (2 cs)
  then show ?case
    by (induction cs) (auto simp add: replace_char_def lower_def lower_letter lower_char_underscore)
next
  case (3 bs)
  then show ?case by (simp add: replace_char_def lower_def)
qed

lemma required_shape:
  assumes "r \<in> set required_columns"
  shows "r \<noteq> []" "97 \<le> (of_char (hd r) :: nat)" "hd r \<noteq> CHR ''_''"
    "97 \<le> (of_char (last r) :: nat)" "last r \<noteq> CHR ''_''"
    "\<forall>c\<in>set r. 97 \<le> (of_char c :: nat) \<and> of_char c \<le> (122 :: nat) \<or> c = CHR ''_''"
  using assms by (auto simp add: required_columns_def)

lemma normalize_name_variant:
  assumes "r \<in> set required_columns" "list_all isspace pre" "list_all isspace post"
  shows "normalize_name (variant pre bs post r) = r"
proof -
  have "strip (pre @ respell bs r @ post) = respell bs r"
    using assms required_shape [OF assms(1)]
    by (intro strip_padded) (simp_all add: respell_Nil respell_hd respell_last)
  then show ?thesis
    using required_shape(6) [OF assms(1)] by (simp add: normalize_name_def variant_def respell_back)
qed

lemma columns_normalize: "columns (normalize_columns df) = map normalize_name (columns df)"
  by (simp add: columns_def normalize_columns_def case_prod_unfold)

lemma cells_normalize: "map snd (normalize_columns df) = map snd df"
  by (simp add: normalize_columns_def case_prod_unfold)

section \<open>Claims on the header\<close>

text \<open>
  Claim C10. Header normalisation is idempotent: for every header text, normalising
  (strip the white space at both ends, lower the case, replace each space by an
  underscore) a second time gives what the first time gave.
\<close>

theorem normalize_name_idem: "normalize_name (normalize_name s) = normalize_name s"
proof -
  have "strip (normalize_name s) = normalize_name s"
    using normalize_name_clean [of s] by (rule strip_id)
  then show ?thesis
    using normalize_name_fixed [of s] by (simp add: normalize_name_def [of "normalize_name s"])
qed

text \<open>
  Claim C6. \<open>normalize_columns\<close> is a total function that renames every header by
  \<open>normalize_name\<close> and keeps the cells; and when the header has, for each of the six
  required names, some spelling of it (letters in either case, an underscore or a space
  between the words, white space around it), normalising and then validating succeeds
  and returns the normalised table.
\<close>

theorem normalize_validateSchema:
  assumes "\<forall>r\<in>set required_columns.
             variant (pre r) (bs r) (post r) r \<in> set (columns df)
             \<and> list_all isspace (pre r) \<and> list_all isspace (post r)"
  shows "columns (normalize_columns df) = map normalize_name (columns df)
         \<and> map snd (normalize_columns df) = map snd df
         \<and> validateSchema (normalize_columns df) = Inr (normalize_columns df)"
proof -
  have "r \<in> set (columns (normalize_columns df))" if r: "r \<in> set required_columns" for r
  proof -
    from assms r have v: "variant (pre r) (bs r) (post r) r \<in> set (columns df)"
      and p: "list_all isspace (pre r)" "list_all isspace (post r)"
      by blast+
    have "normalize_name (variant (pre r) (bs r) (post r) r) = r"
      using r p by (rule normalize_name_variant)
    with v show ?thesis
      unfolding columns_normalize by (metis image_eqI set_map)
  qed
  then have "validateSchema (normalize_columns df) = Inr (normalize_columns df)"
    by (simp add: validateSchema_def list_all_iff)
  then show ?thesis
    by (simp add: columns_normalize cells_normalize)
qed

theorem normalize_validateSchema_witness:
  "list_all (\<lambda>r. variant '' ''
          (if r = ''media_type'' then [True, False, False, False, False, True, True] else [True])
          ''  '' r
        \<in> set (columns [('' Date  '', []), ('' Platform  '', []), ('' Sentiment  '', []),
                          ('' Location  '', []), ('' Engagements  '', []),
                          ('' Media Type  '', []), (''Notes'', [])])) required_columns
   \<and> list_all isspace '' '' \<and> list_all isspace ''  ''
   \<and> validateSchema (normalize_columns
          [('' Date  '', []), ('' Platform  '', []), ('' Sentiment  '', []),
           ('' Location  '', []), ('' Engagements  '', []), ('' Media Type  '', []),
           (''Notes'', [])])
       = Inr [(''date'', []), (''platform'', []), (''sentiment'', []),
              (''location'', []), (''engagements'', []), (''media_type'', []),
              (''notes'', [])]"
proof -
  let ?df = "[('' Date  '', []), ('' Platform  '', []), ('' Sentiment  '', []),
              ('' Location  '', []), ('' Engagements  '', []), ('' Media Type  '', []),
              (''Notes'', [])] :: frame"
  let ?bs = "\<lambda>r. if r = ''media_type'' then [True, False, False, False, False, True, True]
                 else [True]"
  have v: "list_all (\<lambda>r. variant '' '' (?bs r) ''  '' r \<in> set (columns ?df)) required_columns"
    by code_simp
  have w: "list_all isspace '' ''" "list_all isspace ''  ''"
    by code_simp+
  have h: "\<forall>r\<in>set required_columns.
      variant '' '' (?bs r) ''  '' r \<in> set (columns ?df)
      \<and> list_all isspace '' '' \<and> list_all isspace ''  ''"
    using v w unfolding list_all_iff by blast
  have n: "normalize_columns ?df = [(''date'', []), (''platform'', []), (''sentiment'', []),
              (''location'', []), (''engagements'', []), (''media_type'', []), (''notes'', [])]"
    by code_simp
  show ?thesis
    using v w n normalize_validateSchema [of "\<lambda>_. '' ''" ?bs "\<lambda>_. ''  ''" ?df, OF h]
    by simp
qed

text \<open>
  Claim C3, as amended. When the normalised header lacks at least one required name,
  \<open>validateSchema\<close> fails, and the names in its error are the six required names,
  each capitalised, whichever of them are missing; the message prints them after the
  words "Please ensure your CSV has these columns".
\<close>

theorem validateSchema_missing:
  assumes "missing_columns (normalize_columns df) \<noteq> []"
  shows "validateSchema (normalize_columns df)
           = Inl (SchemaError [''Date'', ''Platform'', ''Sentiment'', ''Location'',
                               ''Engagements'', ''Media_type''])
     \<and> error_message (SchemaError [''Date'', ''Platform'', ''Sentiment'', ''Location'',
                               ''Engagements'', ''Media_type''])
         = ''Error: Missing one or more required columns after cleaning. ''
           @ ''Please ensure your CSV has these columns: ''
           @ ''**Date, Platform, Sentiment, Location, Engagements, Media_type**.''"
proof -
  have c: "map capitalize required_columns
        = [''Date'', ''Platform'', ''Sentiment'', ''Location'', ''Engagements'', ''Media_type'']"
    by code_simp
  have "\<not> list_all (\<lambda>col. col \<in> set (columns (normalize_columns df))) required_columns"
    using assms by (auto simp add: missing_columns_def filter_empty_conv list_all_iff)
  then have "validateSchema (normalize_columns df)
           = Inl (SchemaError [''Date'', ''Platform'', ''Sentiment'', ''Location'',
                               ''Engagements'', ''Media_type''])"
    by (simp add: validateSchema_def c)
  then show ?thesis
    by (simp add: error_message_def)
qed

theorem validateSchema_missing_witness:
  "missing_columns (normalize_columns
       [(''Date'', []), (''Platform'', []), (''Location'', []), (''Media Type'', [])]) \<noteq> []
   \<and> validateSchema (normalize_columns
       [(''Date'', []), (''Platform'', []), (''Location'', []), (''Media Type'', [])])
     = Inl (SchemaError [''Date'', ''Platform'', ''Sentiment'', ''Location'',
                         ''Engagements'', ''Media_type''])"
proof -
  have h: "missing_columns (normalize_columns
       [(''Date'', []), (''Platform'', []), (''Location'', []), (''Media Type'', [])]) \<noteq> []"
    by code_simp
  show ?thesis
    using h validateSchema_missing [OF h] by simp
qed

text \<open>
  The claim as the specification words it, that the error lists exactly the missing
  names, fails on a header that lacks only the location: the error names all six.
\<close>

theorem validateSchema_lists_present_names:
  "missing_columns (normalize_columns
       [(''Date'', []), (''Platform'', []), (''Sentiment'', []), (''Engagements'', []),
        (''Media Type'', [])]) = [''location'']
   \<and> validateSchema (normalize_columns
       [(''Date'', []), (''Platform'', []), (''Sentiment'', []), (''Engagements'', []),
        (''Media Type'', [])])
     = Inl (SchemaError [''Date'', ''Platform'', ''Sentiment'', ''Location'',
                         ''Engagements'', ''Media_type''])
   \<and> validateSchema (normalize_columns
       [(''Date'', []), (''Platform'', []), (''Sentiment'', []), (''Engagements'', []),
        (''Media Type'', [])])
     \<noteq> Inl (SchemaError (map capitalize (missing_columns (normalize_columns
       [(''Date'', []), (''Platform'', []), (''Sentiment'', []), (''Engagements'', []),
        (''Media Type'', [])]))))"
  by code_simp

section \<open>Frames: properties\<close>

lemma those_map_Some: "those (map f xs) = Some ys \<longleftrightarrow> map f xs = map Some ys"
proof (induction xs arbitrary: ys)
  case Nil
  then show ?case by auto
next
  case (Cons x xs)
  show ?case
  proof (cases "f x")
    case None
    then show ?thesis by auto
  next
    case (Some y)
    have "those (map f (x # xs)) = Some ys \<longleftrightarrow> (\<exists>zs. those (map f xs) = Some zs \<and> ys = y # zs)"
      using Some by auto
    also have "\<dots> \<longleftrightarrow> (\<exists>zs. map f xs = map Some zs \<and> ys = y # zs)"
      by (simp add: Cons.IH)
    also have "\<dots> \<longleftrightarrow> map f (x # xs) = map Some ys"
      using Some by (cases ys) auto
    finally show ?thesis .
  qed
qed

lemma those_map_None: "those (map f xs) = None \<longleftrightarrow> (\<exists>x\<in>set xs. f x = None)"
  by (induction xs) (auto split: option.splits)

lemma filter_named_setitem:
  "filter (\<lambda>(m, _). m = k) (map (\<lambda>(m, col). if m = n then (m, vals) else (m, col)) df)
     = map (\<lambda>(m, col). if m = n then (m, vals) else (m, col)) (filter (\<lambda>(m, _). m = k) df)"
  by (induction df) (auto split: if_splits)

lemma getitem_in_columns: "getitem df n = Series col \<Longrightarrow> n \<in> set (columns df)"
proof -
  assume a: "getitem df n = Series col"
  have "filter (\<lambda>(m, _). m = n) df \<noteq> []"
    using a by (auto simp add: getitem_def)
  then obtain x where "x \<in> set df" "fst x = n"
    by (auto simp add: filter_empty_conv)
  then show ?thesis by (auto simp add: columns_def)
qed

lemma getitem_Series_filter:
  "getitem df n = Series col \<longleftrightarrow> filter (\<lambda>(m, _). m = n) df = [(n, col)]"
proof
  assume "getitem df n = Series col"
  then obtain m where f: "filter (\<lambda>(m, _). m = n) df = [(m, col)]"
    by (auto simp add: getitem_def split: list.splits)
  then have "(m, col) \<in> set (filter (\<lambda>(m, _). m = n) df)" by simp
  then have "m = n" by simp
  with f show "filter (\<lambda>(m, _). m = n) df = [(n, col)]" by simp
next
  assume "filter (\<lambda>(m, _). m = n) df = [(n, col)]"
  then show "getitem df n = Series col" by (simp add: getitem_def)
qed

lemma getitem_setitem_same:
  assumes "getitem df n = Series col"
  shows "getitem (setitem df n vals) n = Series vals"
  using assms getitem_in_columns [OF assms]
  by (simp add: getitem_Series_filter setitem_def filter_named_setitem)

lemma getitem_setitem_other:
  assumes "n \<in> set (columns df)" "k \<noteq> n"
  shows "getitem (setitem df n vals) k = getitem df k"
proof -
  have "map (\<lambda>(m, col). if m = n then (m, vals) else (m, col)) (filter (\<lambda>(m, _). m = k) df)
        = filter (\<lambda>(m, _). m = k) df"
    using assms(2) by (induction df) auto
  then show ?thesis
    using assms(1) by (simp add: getitem_def setitem_def filter_named_setitem)
qed

lemma columns_setitem: "n \<in> set (columns df) \<Longrightarrow> columns (setitem df n vals) = columns df"
  by (auto simp add: setitem_def columns_def)

lemma nrows_setitem:
  assumes "getitem df n = Series col" "length vals = length col"
  shows "nrows (setitem df n vals) = nrows df"
proof (cases df)
  case Nil
  with assms show ?thesis by (simp add: getitem_def)
next
  case (Cons c rest)
  obtain m cs where c: "c = (m, cs)" by (cases c)
  have f: "filter (\<lambda>(m, _). m = n) df = [(n, col)]"
    using assms(1) by (simp add: getitem_Series_filter)
  have "m = n \<Longrightarrow> cs = col"
    using f by (simp add: Cons c split: if_splits)
  then show ?thesis
    using getitem_in_columns [OF assms(1)] assms(2)
    by (auto simp add: setitem_def nrows_def Cons c)
qed

section \<open>Claims on the cleaning steps\<close>

text \<open>
  Claim C1. For a table with one column named \<open>date\<close>: when the parser accepts every
  cell of that column, \<open>coerceDate\<close> succeeds, and its result has the same number of
  rows and the same header, with the parsed stamps in the date column; when the parser
  rejects at least one cell, \<open>coerceDate\<close> returns \<open>DateCoercionError\<close> and no table
  (all or nothing, not row by row).
\<close>

theorem coerceDate_all_or_nothing:
  assumes "getitem df ''date'' = Series col"
  shows "(list_all (\<lambda>c. parse col c \<noteq> None) col \<longrightarrow>
           (\<exists>df' ds. coerceDate parse df = Inr df' \<and> nrows df' = nrows df
              \<and> columns df' = columns df
              \<and> map (parse col) col = map Some ds
              \<and> getitem df' ''date'' = Series (map Date ds)))
       \<and> (\<not> list_all (\<lambda>c. parse col c \<noteq> None) col \<longrightarrow>
            coerceDate parse df = Inl DateCoercionError)"
proof (intro conjI impI)
  assume a: "list_all (\<lambda>c. parse col c \<noteq> None) col"
  then have "those (map (parse col) col) \<noteq> None"
    by (simp add: those_map_None list_all_iff)
  then obtain ds where ds: "those (map (parse col) col) = Some ds" by blast
  then have m: "map (parse col) col = map Some ds" by (simp add: those_map_Some)
  then have "length (map (parse col) col) = length (map Some ds)" by simp
  then have l: "length (map Date ds) = length col" by simp
  have c: "coerceDate parse df = Inr (setitem df ''date'' (map Date ds))"
    using assms ds by (simp add: coerceDate_def to_datetime_def)
  show "\<exists>df' ds. coerceDate parse df = Inr df' \<and> nrows df' = nrows df
              \<and> columns df' = columns df
              \<and> map (parse col) col = map Some ds
              \<and> getitem df' ''date'' = Series (map Date ds)"
    using c m nrows_setitem [OF assms l] columns_setitem [OF getitem_in_columns [OF assms]]
      getitem_setitem_same [OF assms]
    by blast
next
  assume "\<not> list_all (\<lambda>c. parse col c \<noteq> None) col"
  then have "those (map (parse col) col) = None"
    by (simp add: those_map_None list_all_iff)
  then show "coerceDate parse df = Inl DateCoercionError"
    using assms by (simp add: coerceDate_def to_datetime_def)
qed

theorem coerceDate_all_or_nothing_witness:
  "list_all (\<lambda>c. iso_day [Txt ''2024-03-11'', NaN, Txt ''2024-03-12''] c \<noteq> None)
      [Txt ''2024-03-11'', NaN, Txt ''2024-03-12'']
   \<and> (\<exists>df'. coerceDate iso_day
          [(''date'', [Txt ''2024-03-11'', NaN, Txt ''2024-03-12'']),
           (''platform'', [Txt ''X'', Txt ''TikTok'', Txt ''X''])] = Inr df'
        \<and> nrows df' = 3
        \<and> getitem df' ''date'' = Series [Date (At 20240311), Date NaT, Date (At 20240312)])
   \<and> \<not> list_all (\<lambda>c. iso_day [Txt ''2024-03-11'', Txt ''not-a-date'', Txt ''2024-03-12''] c \<noteq> None)
      [Txt ''2024-03-11'', Txt ''not-a-date'', Txt ''2024-03-12'']
   \<and> coerceDate iso_day
          [(''date'', [Txt ''2024-03-11'', Txt ''not-a-date'', Txt ''2024-03-12'']),
           (''platform'', [Txt ''X'', Txt ''TikTok'', Txt ''X''])] = Inl DateCoercionError"
proof -
  let ?good = "[Txt ''2024-03-11'', NaN, Txt ''2024-03-12'']"
  let ?bad = "[Txt ''2024-03-11'', Txt ''not-a-date'', Txt ''2024-03-12'']"
  let ?p = "(''platform'', [Txt ''X'', Txt ''TikTok'', Txt ''X''])"
  have g: "getitem [(''date'', ?good), ?p] ''date'' = Series ?good"
    and b: "getitem [(''date'', ?bad), ?p] ''date'' = Series ?bad"
    by (simp_all add: getitem_def)
  have pg: "map (iso_day ?good) ?good = [Some (At 20240311), Some NaT, Some (At 20240312)]"
    by (simp add: digit_def)
  have pb: "map (iso_day ?bad) ?bad = [Some (At 20240311), None, Some (At 20240312)]"
    by (simp add: digit_def)
  have lg: "list_all (\<lambda>c. iso_day ?good c \<noteq> None) ?good"
    using pg by simp
  have lb: "\<not> list_all (\<lambda>c. iso_day ?bad c \<noteq> None) ?bad"
    using pb by simp
  from coerceDate_all_or_nothing [OF g, of iso_day] lg
  obtain df' ds where d: "coerceDate iso_day [(''date'', ?good), ?p] = Inr df'"
    "nrows df' = nrows [(''date'', ?good), ?p]"
    "map (iso_day ?good) ?good = map Some ds" "getitem df' ''date'' = Series (map Date ds)"
    by blast
  from d(3) pg have "ds = [At 20240311, NaT, At 20240312]"
    by (auto simp add: map_eq_Cons_conv)
  with d have 1: "\<exists>df'. coerceDate iso_day [(''date'', ?good), ?p] = Inr df'
        \<and> nrows df' = 3
        \<and> getitem df' ''date'' = Series [Date (At 20240311), Date NaT, Date (At 20240312)]"
    by (simp add: nrows_def)
  from coerceDate_all_or_nothing [OF b, of iso_day] lb
  have 2: "coerceDate iso_day [(''date'', ?bad), ?p] = Inl DateCoercionError"
    by blast
  show ?thesis using lg lb 1 2 by blast
qed

text \<open>
  Claim C2, as amended. For a table with one column named \<open>engagements\<close>,
  \<open>repairEngagements\<close> does not fail and keeps the rows and the header; every cell of
  the repaired column is a number: exactly 0 where the original cell holds no number
  (text that is no numeral, or a missing cell), and the number read from the cell
  otherwise, whatever its sign. The repaired column is non-negative when every number
  read from the original column is.
\<close>

theorem repairEngagements_values:
  assumes "getitem df ''engagements'' = Series col"
  shows "\<exists>df' out. repairEngagements num df = Inr df'
           \<and> getitem df' ''engagements'' = Series out
           \<and> nrows df' = nrows df \<and> columns df' = columns df
           \<and> length out = length col
           \<and> (\<forall>i<length col.
                 (num (col ! i) = None \<longrightarrow> out ! i = Num 0)
                 \<and> (\<forall>x. num (col ! i) = Some x \<longrightarrow> out ! i = Num x))
           \<and> (list_all (\<lambda>c. \<forall>x. num c = Some x \<longrightarrow> 0 \<le> x) col
                 \<longrightarrow> list_all (\<lambda>c. \<exists>x. c = Num x \<and> 0 \<le> x) out)"
proof -
  define out where "out = map Num (fillna 0 (to_numeric num col))"
  have l: "length out = length col"
    by (simp add: out_def fillna_def to_numeric_def)
  have r: "repairEngagements num df = Inr (setitem df ''engagements'' out)"
    using assms by (simp add: repairEngagements_def out_def)
  have v: "(num (col ! i) = None \<longrightarrow> out ! i = Num 0)
           \<and> (\<forall>x. num (col ! i) = Some x \<longrightarrow> out ! i = Num x)" if "i < length col" for i
    using that by (auto simp add: out_def fillna_def to_numeric_def)
  have p: "list_all (\<lambda>c. \<exists>x. c = Num x \<and> 0 \<le> x) out"
    if "list_all (\<lambda>c. \<forall>x. num c = Some x \<longrightarrow> 0 \<le> x) col"
    using that
    by (auto simp add: out_def fillna_def to_numeric_def list_all_iff split: option.splits)
  show ?thesis
    using r l v p getitem_setitem_same [OF assms, of out] nrows_setitem [OF assms l]
      columns_setitem [OF getitem_in_columns [OF assms], of out]
    by blast
qed

theorem repairEngagements_values_witness:
  "\<exists>df'. repairEngagements plain_number
       [(''platform'', [Txt ''X'', Txt ''TikTok'', Txt ''X'']),
        (''engagements'', [Num 120, Txt ''N/A'', NaN])] = Inr df'
     \<and> getitem df' ''engagements'' = Series [Num 120, Num 0, Num 0]"
proof -
  let ?col = "[Num 120, Txt ''N/A'', NaN]"
  let ?df = "[(''platform'', [Txt ''X'', Txt ''TikTok'', Txt ''X'']), (''engagements'', ?col)]"
  have g: "getitem ?df ''engagements'' = Series ?col"
    by (simp add: getitem_def)
  from repairEngagements_values [OF g, of plain_number]
  obtain df' out where d: "repairEngagements plain_number ?df = Inr df'"
    "getitem df' ''engagements'' = Series out" "length out = length ?col"
    "\<forall>i<length ?col.
       (plain_number (?col ! i) = None \<longrightarrow> out ! i = Num 0)
       \<and> (\<forall>x. plain_number (?col ! i) = Some x \<longrightarrow> out ! i = Num x)"
    by blast
  from d(4) have "out ! 0 = Num 120" "out ! Suc 0 = Num 0" "out ! Suc (Suc 0) = Num 0"
    by (simp_all add: All_less_Suc numeral_3_eq_3)
  with d(3) have "out = [Num 120, Num 0, Num 0]"
    by (auto simp add: length_Suc_conv numeral_3_eq_3)
  with d show ?thesis by blast
qed

text \<open>
  The claim as the specification words it, that every repaired value is non-negative,
  fails on a table with the six required columns whose engagements are 120 and -5: the
  column is returned as it is.
\<close>

theorem repairEngagements_keeps_negative:
  "repairEngagements plain_number
       [(''date'', [Txt ''2024-03-11'', Txt ''2024-03-12'']),
        (''platform'', [Txt ''X'', Txt ''TikTok'']),
        (''sentiment'', [Txt ''positive'', Txt ''negative'']),
        (''location'', [Txt ''Jakarta'', Txt ''Bandung'']),
        (''engagements'', [Num 120, Num (-5)]),
        (''media_type'', [Txt ''video'', Txt ''image''])]
     = Inr [(''date'', [Txt ''2024-03-11'', Txt ''2024-03-12'']),
        (''platform'', [Txt ''X'', Txt ''TikTok'']),
        (''sentiment'', [Txt ''positive'', Txt ''negative'']),
        (''location'', [Txt ''Jakarta'', Txt ''Bandung'']),
        (''engagements'', [Num 120, Num (-5)]),
        (''media_type'', [Txt ''video'', Txt ''image''])]
   \<and> (-5 :: real) < 0"
  by (simp add: repairEngagements_def getitem_def setitem_def columns_def to_numeric_def
      fillna_def)

section \<open>The pipeline: properties\<close>

lemma normalize_name_samples:
  "normalize_name ''Date'' = ''date''"
  "normalize_name ''Platform'' = ''platform''"
  "normalize_name ''Sentiment'' = ''sentiment''"
  "normalize_name ''Location'' = ''location''"
  "normalize_name ''Engagements'' = ''engagements''"
  "normalize_name ''Media Type'' = ''media_type''"
  "normalize_name ''Notes'' = ''notes''"
  "normalize_name ''notes'' = ''notes''"
  by code_simp+

lemmas pipeline_defs =
  load_def clean_def normalize_columns_def validateSchema_def required_columns_def
  columns_def coerceDate_def getitem_def to_datetime_def setitem_def repairEngagements_def
  to_numeric_def fillna_def digit_def normalize_name_samples

lemma load_sample_upload:
  "load iso_day plain_number (Table sample_table) = Inr
     [(''date'', [Date (At 20240311), Date (At 20240312), Date (At 20240312)]),
      (''platform'', [Txt ''X'', Txt ''TikTok'', Txt ''X'']),
      (''sentiment'', [Txt ''positive'', Txt ''neutral'', Txt ''negative'']),
      (''location'', [Txt ''Jakarta'', Txt ''Bandung'', Txt ''Jakarta'']),
      (''engagements'', [Num 120, Num 0, Num 30]),
      (''media_type'', [Txt ''video'', Txt ''image'', Txt ''text''])]"
  by (simp add: sample_table_def pipeline_defs)

lemma load_header_only_upload:
  "load iso_day plain_number (Table header_only_table) = Inr
     [(''date'', []), (''platform'', []), (''sentiment'', []), (''location'', []),
      (''engagements'', []), (''media_type'', [])]"
  by (simp add: header_only_table_def pipeline_defs)

lemma load_undated_upload:
  "load iso_day plain_number (Table undated_table) = Inl DateCoercionError"
  by (simp add: undated_table_def pipeline_defs)

lemma capitalize_required:
  "map capitalize required_columns
        = [''Date'', ''Platform'', ''Sentiment'', ''Location'', ''Engagements'', ''Media_type'']"
  by code_simp

lemma load_unlocated_upload:
  "load iso_day plain_number (Table unlocated_table) = Inl (SchemaError
     [''Date'', ''Platform'', ''Sentiment'', ''Location'', ''Engagements'', ''Media_type''])"
  using capitalize_required
  by (simp add: unlocated_table_def pipeline_defs)

lemma load_unlabelled_upload:
  "load iso_day plain_number (Table unlabelled_table) = Inr
     [(''date'', [Date (At 20240311), Date (At 20240312)]),
      (''platform'', [Txt ''X'', NaN]),
      (''sentiment'', [Txt ''positive'', Txt ''neutral'']),
      (''location'', [Txt ''Jakarta'', Txt ''Bandung'']),
      (''engagements'', [Num 120, Num 30]),
      (''media_type'', [Txt ''video'', Txt ''image''])]"
  by (simp add: unlabelled_table_def pipeline_defs)

lemma clean_not_EmptyDataError: "clean parse num df \<noteq> Inl EmptyDataError"
  by (auto simp add: clean_def validateSchema_def coerceDate_def repairEngagements_def
      split: sum.splits selection.splits option.splits if_splits)

lemma load_renoted_upload:
  "load iso_day plain_number (Table renoted_table) = Inr
     [(''date'', [Date (At 20240311)]),
      (''platform'', [Txt ''X'']),
      (''sentiment'', [Txt ''positive'']),
      (''location'', [Txt ''Jakarta'']),
      (''engagements'', [Num 120]),
      (''media_type'', [Txt ''video'']),
      (''notes'', [Txt ''first'']),
      (''notes'', [Txt ''second''])]"
  by (simp add: renoted_table_def pipeline_defs)

lemma columns_df_head: "columns (df_head n df) = columns df"
  by (simp add: columns_def df_head_def case_prod_unfold)

lemma st_dataframe_head:
  "st_dataframe (df_head n df) = Inr () \<longleftrightarrow> distinct (columns df)"
  by (simp add: st_dataframe_def columns_df_head)

lemma dashboard_load:
  "dashboard parse num (Some up) =
     (case load parse num up of
        Inl e \<Rightarrow> ((case read_csv up of Inl _ \<Rightarrow> [] | Inr _ \<Rightarrow> [uploaded_message])
                     @ [Failure (error_message e)], Prompt)
      | Inr df \<Rightarrow>
          (case st_dataframe (df_head 5 df) of
             Inl e \<Rightarrow> ([uploaded_message, cleaned_message, Failure (error_message e)], Prompt)
           | Inr _ \<Rightarrow> ([uploaded_message, cleaned_message], Charts df)))"
  by (simp add: dashboard_def process_def load_def render_def split: sum.splits)

lemma error_message_not_empty: "error_message e \<noteq> []"
  by (cases e) (simp_all add: error_message_def)

text \<open>
  Every table that the pipeline returns has one engagements column, and it is numeric:
  the form that the properties of the aggregates below ask for.
\<close>

lemma load_engagements_numeric:
  assumes "load parse num up = Inr df"
  shows "\<exists>vals. getitem df ''engagements'' = Series (map Num vals)"
proof -
  from assms obtain df2 where r: "repairEngagements num df2 = Inr df"
    by (auto simp add: load_def clean_def split: sum.splits)
  then obtain col where g: "getitem df2 ''engagements'' = Series col"
    and d: "df = setitem df2 ''engagements'' (map Num (fillna 0 (to_numeric num col)))"
    by (auto simp add: repairEngagements_def split: selection.splits)
  show ?thesis
    using getitem_setitem_same [OF g] d by blast
qed

text \<open>
  A table from which the charts are drawn has come through every step, bears each name
  once, and has each required column as a series.
\<close>

lemma clean_columns:
  assumes "clean parse num df0 = Inr df"
  shows "list_all (\<lambda>r. r \<in> set (columns df)) required_columns"
proof -
  from assms obtain df1 df2 where v: "validateSchema (normalize_columns df0) = Inr df1"
    and c: "coerceDate parse df1 = Inr df2" and r: "repairEngagements num df2 = Inr df"
    by (auto simp add: clean_def split: sum.splits)
  from v have 1: "list_all (\<lambda>r. r \<in> set (columns df1)) required_columns"
    by (auto simp add: validateSchema_def split: if_splits)
  from c obtain col ds where "getitem df1 ''date'' = Series col"
    and "df2 = setitem df1 ''date'' ds"
    by (auto simp add: coerceDate_def split: selection.splits option.splits)
  then have 2: "columns df2 = columns df1"
    using columns_setitem [OF getitem_in_columns] by blast
  from r obtain col' vs where "getitem df2 ''engagements'' = Series col'"
    and "df = setitem df2 ''engagements'' vs"
    by (auto simp add: repairEngagements_def split: selection.splits)
  then have "columns df = columns df2"
    using columns_setitem [OF getitem_in_columns] by blast
  with 1 2 show ?thesis by simp
qed

lemma getitem_distinct:
  "distinct (columns df) \<Longrightarrow> n \<in> set (columns df) \<Longrightarrow> \<exists>col. getitem df n = Series col"
proof (induction df)
  case Nil
  then show ?case by (simp add: columns_def)
next
  case (Cons c df)
  obtain m cs where c: "c = (m, cs)" by (cases c)
  show ?case
  proof (cases "m = n")
    case True
    then have "filter (\<lambda>(m, _). m = n) df = []"
      using Cons.prems(1) by (force simp add: columns_def c filter_empty_conv)
    then show ?thesis
      using True by (simp add: getitem_def c)
  next
    case False
    then have "getitem (c # df) n = getitem df n"
      by (simp add: getitem_def c)
    then show ?thesis
      using Cons False by (auto simp add: columns_def c)
  qed
qed

lemma charted_table:
  assumes "dashboard parse num (Some up) = (msgs, Charts df)"
  shows "load parse num up = Inr df" and "distinct (columns df)"
    and "r \<in> set required_columns \<Longrightarrow> \<exists>col. getitem df r = Series col"
    and "\<exists>vals. getitem df ''engagements'' = Series (map Num vals)"
proof -
  show l: "load parse num up = Inr df"
    using assms by (auto simp add: dashboard_load split: sum.splits)
  show d: "distinct (columns df)"
    using assms st_dataframe_head [of 5 df]
    by (auto simp add: dashboard_load split: sum.splits)
  from l obtain df0 where "clean parse num df0 = Inr df"
    by (auto simp add: load_def split: sum.splits)
  then have "list_all (\<lambda>r. r \<in> set (columns df)) required_columns"
    by (rule clean_columns)
  then show "\<exists>col. getitem df r = Series col" if "r \<in> set required_columns"
    using that d getitem_distinct [of df r] by (simp add: list_all_iff)
  show "\<exists>vals. getitem df ''engagements'' = Series (map Num vals)"
    using l by (rule load_engagements_numeric)
qed

section \<open>Claims on the pipeline\<close>

text \<open>
  Claim C4, as amended. The pipeline halts with the empty-input error exactly when the
  reader finds no column in the file, as in a file of zero bytes; the page then shows
  the message that the file is empty, and no charts. A file that has a header is never
  stopped by this error, whether or not rows follow the header.
\<close>

theorem empty_upload:
  "(load parse num (Table df) = Inl EmptyDataError) = (df = [])
   \<and> dashboard parse num (Some (Table [])) =
       ([Failure ''The uploaded CSV file is empty. Please upload a file with data.''], Prompt)"
  using clean_not_EmptyDataError [of parse num df]
  by (simp add: dashboard_load load_def error_message_def)

text \<open>
  The claim as the specification words it fails on a file that holds the six required
  headers and no row: the reader returns a table without rows, every step succeeds, and
  the charts are drawn from it.
\<close>

theorem header_only_is_charted:
  "read_csv (Table header_only_table) \<noteq> Inl EmptyDataError
   \<and> load iso_day plain_number (Table header_only_table) = Inr
     [(''date'', []), (''platform'', []), (''sentiment'', []), (''location'', []),
      (''engagements'', []), (''media_type'', [])]
   \<and> dashboard iso_day plain_number (Some (Table header_only_table)) =
       ([uploaded_message, cleaned_message],
        Charts [(''date'', []), (''platform'', []), (''sentiment'', []), (''location'', []),
                (''engagements'', []), (''media_type'', [])])"
  by (simp add: dashboard_load load_header_only_upload st_dataframe_def df_head_def columns_def)
    (simp add: header_only_table_def)

text \<open>
  Claim C5. For every upload: when the reader fails, or schema validation fails, or the
  date coercion fails, or any later step of the pipeline fails, the page shows the
  prompt instead of the charts and the last message is the error's text, which is not
  empty; so it is when the preview of the cleaned table raises. The prompt is shown only
  after such a failure, with its message. The charts are shown exactly when the whole
  pipeline returned a table that the preview could show, in which case every step
  succeeded and the charts are drawn from the table of the last step.
\<close>

theorem charts_gate:
  assumes "dashboard parse num (Some up) = (msgs, v)"
  shows "(read_csv up = Inl e \<longrightarrow> v = Prompt \<and> msgs = [Failure (error_message e)])
     \<and> (read_csv up = Inr df0 \<and> validateSchema (normalize_columns df0) = Inl e \<longrightarrow>
          v = Prompt \<and> msgs = [uploaded_message, Failure (error_message e)])
     \<and> (read_csv up = Inr df0 \<and> validateSchema (normalize_columns df0) = Inr df1
          \<and> coerceDate parse df1 = Inl e \<longrightarrow>
          v = Prompt \<and> msgs = [uploaded_message, Failure (error_message e)])
     \<and> (load parse num up = Inl e \<longrightarrow> v = Prompt \<and> last msgs = Failure (error_message e))
     \<and> (load parse num up = Inr df' \<and> st_dataframe (df_head 5 df') = Inl e \<longrightarrow>
          v = Prompt
          \<and> msgs = [uploaded_message, cleaned_message, Failure (error_message e)])
     \<and> error_message e \<noteq> []
     \<and> (v = Prompt \<longrightarrow>
          (\<exists>e'. last msgs = Failure (error_message e')
             \<and> (load parse num up = Inl e'
                \<or> (\<exists>df'. load parse num up = Inr df'
                      \<and> st_dataframe (df_head 5 df') = Inl e'))))
     \<and> (v = Charts df \<longleftrightarrow> load parse num up = Inr df \<and> distinct (columns df))
     \<and> (v = Charts df \<longrightarrow>
          (\<exists>df0 df1 df2. read_csv up = Inr df0
             \<and> validateSchema (normalize_columns df0) = Inr df1
             \<and> coerceDate parse df1 = Inr df2 \<and> repairEngagements num df2 = Inr df
             \<and> st_dataframe (df_head 5 df) = Inr ()))"
proof -
  have 1: "read_csv up = Inl e \<longrightarrow> v = Prompt \<and> msgs = [Failure (error_message e)]"
    using assms by (auto simp add: dashboard_load load_def)
  have 2: "read_csv up = Inr df0 \<and> validateSchema (normalize_columns df0) = Inl e \<longrightarrow>
          v = Prompt \<and> msgs = [uploaded_message, Failure (error_message e)]"
    using assms by (auto simp add: dashboard_load load_def clean_def)
  have 3: "read_csv up = Inr df0 \<and> validateSchema (normalize_columns df0) = Inr df1
          \<and> coerceDate parse df1 = Inl e \<longrightarrow>
          v = Prompt \<and> msgs = [uploaded_message, Failure (error_message e)]"
    using assms by (auto simp add: dashboard_load load_def clean_def)
  have 4: "load parse num up = Inl e \<longrightarrow> v = Prompt \<and> last msgs = Failure (error_message e)"
    using assms by (auto simp add: dashboard_load)
  have 5: "load parse num up = Inr df' \<and> st_dataframe (df_head 5 df') = Inl e \<longrightarrow>
          v = Prompt
          \<and> msgs = [uploaded_message, cleaned_message, Failure (error_message e)]"
    using assms by (auto simp add: dashboard_load)
  have 6: "v = Prompt \<longrightarrow>
          (\<exists>e'. last msgs = Failure (error_message e')
             \<and> (load parse num up = Inl e'
                \<or> (\<exists>df'. load parse num up = Inr df'
                      \<and> st_dataframe (df_head 5 df') = Inl e')))"
    using assms by (auto simp add: dashboard_load split: sum.splits)
  have 7: "v = Charts df \<longleftrightarrow> load parse num up = Inr df \<and> distinct (columns df)"
    using assms st_dataframe_head [of 5 df]
    by (auto simp add: dashboard_load split: sum.splits)
  have 8: "v = Charts df \<longrightarrow>
          (\<exists>df0 df1 df2. read_csv up = Inr df0
             \<and> validateSchema (normalize_columns df0) = Inr df1
             \<and> coerceDate parse df1 = Inr df2 \<and> repairEngagements num df2 = Inr df
             \<and> st_dataframe (df_head 5 df) = Inr ())"
    using 7 st_dataframe_head [of 5 df]
    by (auto simp add: load_def clean_def split: sum.splits)
  show ?thesis using 1 2 3 4 5 6 7 8 error_message_not_empty [of e] by blast
qed

theorem charts_gate_witness:
  "dashboard iso_day plain_number (Some Untokenizable) =
     ([Failure (error_message ParserError)], Prompt)
   \<and> dashboard iso_day plain_number (Some (Table unlocated_table)) =
     ([uploaded_message, Failure (error_message (SchemaError
         [''Date'', ''Platform'', ''Sentiment'', ''Location'', ''Engagements'', ''Media_type'']))],
      Prompt)
   \<and> dashboard iso_day plain_number (Some (Table undated_table)) =
     ([uploaded_message, Failure (error_message DateCoercionError)], Prompt)
   \<and> dashboard iso_day plain_number (Some (Table renoted_table)) =
     ([uploaded_message, cleaned_message,
       Failure (error_message (UnexpectedError ''Duplicate column names found''))], Prompt)
   \<and> snd (dashboard iso_day plain_number (Some (Table sample_table))) = Charts
     [(''date'', [Date (At 20240311), Date (At 20240312), Date (At 20240312)]),
      (''platform'', [Txt ''X'', Txt ''TikTok'', Txt ''X'']),
      (''sentiment'', [Txt ''positive'', Txt ''neutral'', Txt ''negative'']),
      (''location'', [Txt ''Jakarta'', Txt ''Bandung'', Txt ''Jakarta'']),
      (''engagements'', [Num 120, Num 0, Num 30]),
      (''media_type'', [Txt ''video'', Txt ''image'', Txt ''text''])]"
proof -
  let ?run = "\<lambda>up. dashboard iso_day plain_number (Some up)"
  obtain m1 v1 where d1: "?run Untokenizable = (m1, v1)"
    by (cases "?run Untokenizable")
  have "read_csv Untokenizable = Inl ParserError" by simp
  with charts_gate [OF d1, of ParserError]
  have 1: "?run Untokenizable = ([Failure (error_message ParserError)], Prompt)"
    using d1 by simp
  obtain m2 v2 where d2: "?run (Table unlocated_table) = (m2, v2)"
    by (cases "?run (Table unlocated_table)")
  have r2: "read_csv (Table unlocated_table) = Inr unlocated_table"
    by (simp add: unlocated_table_def)
  have s2: "validateSchema (normalize_columns unlocated_table) = Inl (SchemaError
         [''Date'', ''Platform'', ''Sentiment'', ''Location'', ''Engagements'', ''Media_type''])"
    using capitalize_required by (simp add: unlocated_table_def pipeline_defs)
  from charts_gate [OF d2, of _ unlocated_table] r2 s2
  have 2: "?run (Table unlocated_table) = ([uploaded_message, Failure (error_message (SchemaError
         [''Date'', ''Platform'', ''Sentiment'', ''Location'', ''Engagements'', ''Media_type'']))],
      Prompt)"
    using d2 by blast
  obtain m3 v3 where d3: "?run (Table undated_table) = (m3, v3)"
    by (cases "?run (Table undated_table)")
  have r3: "read_csv (Table undated_table) = Inr undated_table"
    by (simp add: undated_table_def)
  have s3: "validateSchema (normalize_columns undated_table)
              = Inr (normalize_columns undated_table)"
    by (simp add: undated_table_def pipeline_defs)
  have c3: "coerceDate iso_day (normalize_columns undated_table) = Inl DateCoercionError"
    by (simp add: undated_table_def pipeline_defs)
  from charts_gate [OF d3, of _ undated_table _ "normalize_columns undated_table"] r3 s3 c3
  have 3: "?run (Table undated_table) =
      ([uploaded_message, Failure (error_message DateCoercionError)], Prompt)"
    using d3 by blast
  obtain m4 v4 where d4: "?run (Table sample_table) = (m4, v4)"
    by (cases "?run (Table sample_table)")
  let ?cleaned = "[(''date'', [Date (At 20240311), Date (At 20240312), Date (At 20240312)]),
      (''platform'', [Txt ''X'', Txt ''TikTok'', Txt ''X'']),
      (''sentiment'', [Txt ''positive'', Txt ''neutral'', Txt ''negative'']),
      (''location'', [Txt ''Jakarta'', Txt ''Bandung'', Txt ''Jakarta'']),
      (''engagements'', [Num 120, Num 0, Num 30]),
      (''media_type'', [Txt ''video'', Txt ''image'', Txt ''text''])]"
  have "distinct (columns ?cleaned)"
    by (simp add: columns_def)
  with charts_gate [OF d4, of _ _ _ _ ?cleaned] load_sample_upload
  have 4: "v4 = Charts ?cleaned"
    by blast
  obtain m5 v5 where d5: "?run (Table renoted_table) = (m5, v5)"
    by (cases "?run (Table renoted_table)")
  let ?renoted = "[(''date'', [Date (At 20240311)]),
      (''platform'', [Txt ''X'']),
      (''sentiment'', [Txt ''positive'']),
      (''location'', [Txt ''Jakarta'']),
      (''engagements'', [Num 120]),
      (''media_type'', [Txt ''video'']),
      (''notes'', [Txt ''first'']),
      (''notes'', [Txt ''second''])]"
  have "st_dataframe (df_head 5 ?renoted) = Inl (UnexpectedError ''Duplicate column names found'')"
    by (simp add: st_dataframe_def df_head_def columns_def)
  with charts_gate [OF d5, of "UnexpectedError ''Duplicate column names found''" _ _ ?renoted]
    load_renoted_upload
  have 5: "?run (Table renoted_table) = ([uploaded_message, cleaned_message,
       Failure (error_message (UnexpectedError ''Duplicate column names found''))], Prompt)"
    using d5 by simp
  show ?thesis using 1 2 3 4 5 d4 by simp
qed

section \<open>Aggregation: properties\<close>

lemma set_group_keys: "set (group_keys keys) = labels keys"
  by (auto simp add: group_keys_def labels_def)

lemma distinct_group_keys: "distinct (group_keys keys)"
  by (simp add: group_keys_def)





text \<open>The wrap-around of a sum of 64-bit integers, in the model as in the library.\<close>

lemma wrap_sum_overflow:
  "groupby_sum wrap_sum [Txt ''Jakarta'', Txt ''Jakarta''] [9223372036854775807, 1]
     = [(Txt ''Jakarta'', - 9223372036854775808)]"
  by (simp add: groupby_sum_def group_keys_def group_values_def wrap_sum_def)

lemma sum_list_pick:
  "distinct ks \<Longrightarrow>
     (\<Sum>k\<leftarrow>ks. (if a = k then (v :: real) else 0) + f k)
       = (if a \<in> set ks then v else 0) + (\<Sum>k\<leftarrow>ks. f k)"
  by (induction ks) auto

lemma sum_list_groups:
  assumes "distinct ks"
  shows "(\<Sum>k\<leftarrow>ks. sum_list (map snd (filter (\<lambda>(j, v). j = k) zs)))
           = sum_list (map snd (filter (\<lambda>(j, v :: real). j \<in> set ks) zs))"
proof (induction zs)
  case Nil
  then show ?case by simp
next
  case (Cons z zs)
  obtain a v where z: "z = (a, v)" by (cases z)
  have "(\<Sum>k\<leftarrow>ks. sum_list (map snd (filter (\<lambda>(j, v). j = k) (z # zs))))
          = (\<Sum>k\<leftarrow>ks. (if a = k then v else 0)
                + sum_list (map snd (filter (\<lambda>(j, v). j = k) zs)))"
    by (rule arg_cong [where f = sum_list]) (simp add: z)
  also have "\<dots> = (if a \<in> set ks then v else 0)
                + (\<Sum>k\<leftarrow>ks. sum_list (map snd (filter (\<lambda>(j, v). j = k) zs)))"
    using assms by (rule sum_list_pick)
  finally show ?case by (simp add: Cons.IH z)
qed

lemma groupby_sum_total:
  assumes "\<forall>k\<in>labels keys. agg (group_values k keys vals) = sum_list (group_values k keys vals)"
  shows "sum_list (map snd (groupby_sum agg keys vals))
           = sum_where (\<lambda>k. \<not> isna k) keys vals"
proof -
  have "map snd (groupby_sum agg keys vals)
          = map (\<lambda>k. agg (group_values k keys vals)) (group_keys keys)"
    by (simp add: groupby_sum_def comp_def)
  also have "\<dots> = map (\<lambda>k. sum_list (group_values k keys vals)) (group_keys keys)"
    using assms by (intro map_cong refl) (simp add: set_group_keys)
  finally have "sum_list (map snd (groupby_sum agg keys vals))
          = (\<Sum>k\<leftarrow>group_keys keys.
               sum_list (map snd (filter (\<lambda>(j, v). j = k) (zip keys vals))))"
    by (simp add: group_values_def)
  also have "\<dots> = sum_list (map snd
                (filter (\<lambda>(j, v). j \<in> set (group_keys keys)) (zip keys vals)))"
    using distinct_group_keys by (rule sum_list_groups)
  also have "filter (\<lambda>(j, v). j \<in> set (group_keys keys)) (zip keys vals)
               = filter (\<lambda>(j, v). \<not> isna j) (zip keys vals)"
    by (rule filter_cong) (auto simp add: set_group_keys labels_def dest: set_zip_leftD)
  finally show ?thesis by (simp add: sum_where_def)
qed

lemma sum_where_all:
  assumes "length keys = length vals" "list_all P keys"
  shows "sum_where P keys vals = sum_list vals"
proof -
  have "filter (\<lambda>(k, v). P k) (zip keys vals) = zip keys vals"
    using assms(2) by (auto simp add: filter_id_conv list_all_iff dest: set_zip_leftD)
  then show ?thesis using assms(1) by (simp add: sum_where_def)
qed

lemma numbers_Num: "numbers (map Num vals) = Some vals"
  by (simp add: numbers_def those_map_Some comp_def)

lemma engagements_by_Some:
  assumes "getitem df key = Series keys" "getitem df ''engagements'' = Series (map Num vals)"
  shows "engagements_by agg key df = Some (groupby_sum agg keys vals)"
  using assms by (simp add: engagements_by_def numbers_Num)





section \<open>Claims on the aggregates\<close>

text \<open>
  Claim C9, as amended. For a cleaned table with one platform column and the repaired
  engagements column, on which the library adds up each platform's engagements without
  rounding or wrap-around: the sums of \<open>platform_engagements\<close> add up to the sum of the
  engagements of the rows whose platform is not missing. They add up to the sum of the
  whole repaired column when no row lacks its platform.
\<close>

theorem platform_engagements_total:
  assumes "getitem df ''platform'' = Series keys"
    and "getitem df ''engagements'' = Series (map Num vals)"
    and "\<forall>k\<in>labels keys. agg (group_values k keys vals) = sum_list (group_values k keys vals)"
  shows "\<exists>groups. platform_engagements agg df = Some groups
           \<and> sum_list (map snd groups) = sum_where (\<lambda>k. \<not> isna k) keys vals
           \<and> (length keys = length vals \<and> list_all (\<lambda>k. \<not> isna k) keys \<longrightarrow>
                sum_list (map snd groups) = sum_list vals)"
  using engagements_by_Some [OF assms(1,2), of agg] groupby_sum_total [OF assms(3)]
    sum_where_all [of keys vals "\<lambda>k. \<not> isna k"]
  by (simp add: platform_engagements_def)

theorem platform_engagements_total_witness:
  "\<exists>df groups. load iso_day plain_number (Table sample_table) = Inr df
      \<and> getitem df ''engagements'' = Series [Num 120, Num 0, Num 30]
      \<and> platform_engagements sum_list df = Some groups
      \<and> sum_list (map snd groups) = 150"
proof -
  let ?df = "[(''date'', [Date (At 20240311), Date (At 20240312), Date (At 20240312)]),
      (''platform'', [Txt ''X'', Txt ''TikTok'', Txt ''X'']),
      (''sentiment'', [Txt ''positive'', Txt ''neutral'', Txt ''negative'']),
      (''location'', [Txt ''Jakarta'', Txt ''Bandung'', Txt ''Jakarta'']),
      (''engagements'', [Num 120, Num 0, Num 30]),
      (''media_type'', [Txt ''video'', Txt ''image'', Txt ''text''])]"
  let ?keys = "[Txt ''X'', Txt ''TikTok'', Txt ''X'']"
  have p: "getitem ?df ''platform'' = Series ?keys"
    by (simp add: getitem_def)
  have e: "getitem ?df ''engagements'' = Series (map Num [120, 0, 30])"
    by (simp add: getitem_def)
  have x: "\<forall>k\<in>labels ?keys.
      sum_list (group_values k ?keys [120, 0, 30]) = sum_list (group_values k ?keys [120, 0, 30])"
    by simp
  from platform_engagements_total [OF p e x]
  obtain groups where "platform_engagements sum_list ?df = Some groups"
    "sum_list (map snd groups) = 150"
    by (auto simp add: sum_where_def)
  then show ?thesis
    using load_sample_upload e by auto
qed

text \<open>
  The claim as stated, that the platform sums always add up to the sum of the whole
  column, fails on an upload that passes every step and has a row without a platform:
  the grouping drops that row, and the sums, here exact, add up to 120 where the column
  adds up to 150.
\<close>

theorem platform_engagements_drop_missing:
  "load iso_day plain_number (Table unlabelled_table) = Inr
     [(''date'', [Date (At 20240311), Date (At 20240312)]),
      (''platform'', [Txt ''X'', NaN]),
      (''sentiment'', [Txt ''positive'', Txt ''neutral'']),
      (''location'', [Txt ''Jakarta'', Txt ''Bandung'']),
      (''engagements'', [Num 120, Num 30]),
      (''media_type'', [Txt ''video'', Txt ''image''])]
   \<and> platform_engagements sum_list
     [(''date'', [Date (At 20240311), Date (At 20240312)]),
      (''platform'', [Txt ''X'', NaN]),
      (''sentiment'', [Txt ''positive'', Txt ''neutral'']),
      (''location'', [Txt ''Jakarta'', Txt ''Bandung'']),
      (''engagements'', [Num 120, Num 30]),
      (''media_type'', [Txt ''video'', Txt ''image''])] = Some [(Txt ''X'', 120)]
   \<and> sum_list (map snd [(Txt ''X'', 120 :: real)]) \<noteq> sum_list [120, 30]"
  by (simp add: load_unlabelled_upload platform_engagements_def engagements_by_def
      getitem_def numbers_def groupby_sum_def group_keys_def group_values_def)



end
